theory Spec2Isabelle
  imports Main
begin

section \<open>The generic applier of pkg/common/apply/interface.go\<close>

text \<open>
  The file holds one function with behaviour, \<open>applier.Apply\<close>: it reads the name of the
  required object, fetches the existing object by that name, and then creates, leaves or
  updates it, reporting to an event recorder. Everything it calls is supplied by the caller
  (getter, client, comparison function, recorder) or by a library (metadata accessor, kind
  guessing, formatting, error classification).

  The embedding keeps the control flow of \<open>Apply\<close> statement by statement. The collaborators
  are functions over a state \<open>'w\<close> of the world outside the applier (the store behind the
  getter and the client), which each call may read and change. Every call that \<open>Apply\<close> makes
  to a collaborator is appended to a log, in the order of the calls, so that what was
  invoked, how often and with which arguments can be read off the log.

  A value of the type parameter \<open>T\<close> is a pointer to an object: \<open>None\<close> is the nil pointer.
  The result of \<open>Apply\<close> has the interface type \<open>runtime.Object\<close>; it is rendered in the same
  type, a nil pointer of type \<open>T\<close> and the nil interface both reading \<open>None\<close>. The context
  argument and the empty option structs are only handed on and are left out. A collaborator
  that panics or does not return is outside the model: collaborators are total functions.
\<close>

subsection \<open>Errors\<close>

text \<open>
  Modelled from the spec: package \<open>k8s.io/apimachinery/pkg/api/errors\<close> is imported by the
  source and is not part of it. The spec asks that a "not found" kind of error be
  distinguishable on Get and an "already exists" kind on Create. An error carries its reason
  and a message; the nil error is \<open>None\<close> and has neither kind.
\<close>

datatype StatusReason = StatusReasonNotFound | StatusReasonAlreadyExists | StatusReasonUnknown

datatype error = Error StatusReason string

fun IsNotFound :: "error option \<Rightarrow> bool" where
  "IsNotFound None = False"
| "IsNotFound (Some (Error r m)) = (r = StatusReasonNotFound)"

fun IsAlreadyExists :: "error option \<Rightarrow> bool" where
  "IsAlreadyExists None = False"
| "IsAlreadyExists (Some (Error r m)) = (r = StatusReasonAlreadyExists)"

subsection \<open>Library functions\<close>

text \<open>
  The three library functions that \<open>Apply\<close> calls on objects are parameters of the model:
  \<^item> \<open>Accessor\<close>: \<open>meta.Accessor(obj)\<close>, read by \<open>Apply\<close> through \<open>GetName()\<close> only, so its
    successful result is the name; \<open>Inl\<close> is its error (which is never nil);
  \<^item> \<open>Kind\<close>: the \<open>Kind\<close> field of \<open>resourcehelper.GuessObjectGroupVersionKind(obj)\<close>;
  \<^item> \<open>FormatResource\<close>: \<open>resourcehelper.FormatResourceForCLIWithNamespace(obj)\<close>.
\<close>

record 'o library =
  Accessor :: "'o option \<Rightarrow> error + string"
  Kind :: "'o option \<Rightarrow> string"
  FormatResource :: "'o option \<Rightarrow> string"

subsection \<open>Collaborators\<close>

text \<open>
  \<open>Getter[T]\<close>, \<open>Client[T]\<close> and \<open>CompareFunc[T]\<close>. A Go call returns its value and its error
  side by side, and \<open>Apply\<close> reads the value of Get and of Create also when the error is not
  nil, so the results are pairs and not sums.
\<close>

record ('o, 'w) Getter =
  Get :: "string \<Rightarrow> 'w \<Rightarrow> ('o option \<times> error option) \<times> 'w"

record ('o, 'w) Client =
  Create :: "'o option \<Rightarrow> 'w \<Rightarrow> ('o option \<times> error option) \<times> 'w"
  Update :: "'o option \<Rightarrow> 'w \<Rightarrow> ('o option \<times> error option) \<times> 'w"

type_synonym ('o, 'w) CompareFunc = "'o option \<Rightarrow> 'o option \<Rightarrow> 'w \<Rightarrow> ('o option \<times> bool) \<times> 'w"

record ('o, 'w) applier =
  getter :: "('o, 'w) Getter"
  client :: "('o, 'w) Client"
  compare :: "('o, 'w) CompareFunc"

definition NewApplier ::
  "('o, 'w) Getter \<Rightarrow> ('o, 'w) Client \<Rightarrow> ('o, 'w) CompareFunc \<Rightarrow> ('o, 'w) applier" where
  "NewApplier g c compareFunc = \<lparr>getter = g, client = c, compare = compareFunc\<rparr>"

subsection \<open>The log of calls\<close>

text \<open>
  An argument of a recorder message is a string or an error. The recorder formats the message
  itself; the log keeps the reason, the format string and the arguments as \<open>Apply\<close> passes them.
\<close>

datatype fmt_arg = ArgString string | ArgError "error option"

datatype 'o call =
    GetCall string
  | CreateCall "'o option"
  | UpdateCall "'o option"
  | CompareCall "'o option" "'o option"
  | Eventf string string "fmt_arg list"
  | Warningf string string "fmt_arg list"

record ('o, 'w) run =
  world :: 'w
  calls :: "'o call list"

definition start :: "'w \<Rightarrow> ('o, 'w) run" where
  "start w = \<lparr>world = w, calls = []\<rparr>"

definition callGet ::
  "('o, 'w) applier \<Rightarrow> string \<Rightarrow> ('o, 'w) run \<Rightarrow> ('o option \<times> error option) \<times> ('o, 'w) run" where
  "callGet a name s =
     (case Get (getter a) name (world s) of
        (r, w') \<Rightarrow> (r, \<lparr>world = w', calls = calls s @ [GetCall name]\<rparr>))"

definition callCreate ::
  "('o, 'w) applier \<Rightarrow> 'o option \<Rightarrow> ('o, 'w) run \<Rightarrow> ('o option \<times> error option) \<times> ('o, 'w) run" where
  "callCreate a obj s =
     (case Create (client a) obj (world s) of
        (r, w') \<Rightarrow> (r, \<lparr>world = w', calls = calls s @ [CreateCall obj]\<rparr>))"

definition callUpdate ::
  "('o, 'w) applier \<Rightarrow> 'o option \<Rightarrow> ('o, 'w) run \<Rightarrow> ('o option \<times> error option) \<times> ('o, 'w) run" where
  "callUpdate a obj s =
     (case Update (client a) obj (world s) of
        (r, w') \<Rightarrow> (r, \<lparr>world = w', calls = calls s @ [UpdateCall obj]\<rparr>))"

definition callCompare ::
  "('o, 'w) applier \<Rightarrow> 'o option \<Rightarrow> 'o option \<Rightarrow> ('o, 'w) run \<Rightarrow> ('o option \<times> bool) \<times> ('o, 'w) run" where
  "callCompare a required existing s =
     (case compare a required existing (world s) of
        (r, w') \<Rightarrow> (r, \<lparr>world = w', calls = calls s @ [CompareCall required existing]\<rparr>))"

definition recorderEventf :: "string \<Rightarrow> string \<Rightarrow> fmt_arg list \<Rightarrow> ('o, 'w) run \<Rightarrow> ('o, 'w) run" where
  "recorderEventf reason messageFmt args s = s\<lparr>calls := calls s @ [Eventf reason messageFmt args]\<rparr>"

definition recorderWarningf :: "string \<Rightarrow> string \<Rightarrow> fmt_arg list \<Rightarrow> ('o, 'w) run \<Rightarrow> ('o, 'w) run" where
  "recorderWarningf reason messageFmt args s = s\<lparr>calls := calls s @ [Warningf reason messageFmt args]\<rparr>"

subsection \<open>Apply\<close>

text \<open>
  The result is the triple that \<open>Apply\<close> returns (object, changed, error) and the run after
  the call. The branches follow the source in its order: the accessor error, the not-found
  branch with its three exits, the comparison with its early exit, the update.
\<close>

definition Apply ::
  "'o library \<Rightarrow> ('o, 'w) applier \<Rightarrow> 'o option \<Rightarrow> ('o, 'w) run
     \<Rightarrow> ('o option \<times> bool \<times> error option) \<times> ('o, 'w) run" where
  "Apply lib a required s =
     (case Accessor lib required of
        Inl err \<Rightarrow> ((None, False, Some err), s)
      | Inr name \<Rightarrow>
          (let gvkKind = Kind lib required in
           case callGet a name s of
             ((existing, err), s1) \<Rightarrow>
               if IsNotFound err then
                 (case callCreate a required s1 of
                    ((actual, createErr), s2) \<Rightarrow>
                      if IsAlreadyExists createErr then ((required, False, None), s2)
                      else
                        (let s3 =
                           (if createErr = None
                            then recorderEventf (gvkKind @ ''Created'')
                                   ''Created %s because it was missing''
                                   [ArgString (FormatResource lib actual)] s2
                            else recorderWarningf (gvkKind @ ''CreateFailed'')
                                   ''Failed to create %s: %v''
                                   [ArgString (FormatResource lib required), ArgError createErr] s2)
                         in ((actual, True, createErr), s3)))
               else
                 (case callCompare a required existing s1 of
                    ((updated, modified), s2) \<Rightarrow>
                      if \<not> modified then ((updated, modified, None), s2)
                      else
                        (case callUpdate a updated s2 of
                           ((updated', err'), s3) \<Rightarrow>
                             (let s4 =
                                (if err' \<noteq> None
                                 then recorderWarningf (gvkKind @ ''UpdateFailed'')
                                        ''Failed to update %s: %v''
                                        [ArgString (FormatResource lib required), ArgError err'] s3
                                 else recorderEventf (gvkKind @ ''Updated'')
                                        (''Updated %s:'' @ [CHR 0x0A] @ ''%s'')
                                        [ArgString (FormatResource lib updated')] s3)
                              in ((updated', modified, err'), s4))))))"

subsection \<open>Reading the log\<close>

fun isGet :: "'o call \<Rightarrow> bool" where
  "isGet (GetCall n) = True"
| "isGet c = False"

fun isCreate :: "'o call \<Rightarrow> bool" where
  "isCreate (CreateCall x) = True"
| "isCreate c = False"

fun isUpdate :: "'o call \<Rightarrow> bool" where
  "isUpdate (UpdateCall x) = True"
| "isUpdate c = False"

fun isCompare :: "'o call \<Rightarrow> bool" where
  "isCompare (CompareCall x y) = True"
| "isCompare c = False"

fun isNotification :: "'o call \<Rightarrow> bool" where
  "isNotification (Eventf r m as) = True"
| "isNotification (Warningf r m as) = True"
| "isNotification c = False"

text \<open>
  The contract that the spec gives the comparison function: when it reports no change, the
  object it returns is the existing one.
\<close>

definition compareContract :: "('o, 'w) CompareFunc \<Rightarrow> bool" where
  "compareContract f =
     (\<forall>required existing w. \<not> snd (fst (f required existing w)) \<longrightarrow>
        fst (fst (f required existing w)) = existing)"

subsection \<open>An instance: a lister cache in front of a server\<close>

text \<open>
  Concrete collaborators on which the theorems below are exercised. An object is a name with
  a content; the world is a lister cache, read by the getter, and a server, written by the
  client. The cache may lag behind the server, which is how a Create can meet an object that
  the getter did not find. Like the generated clients, the client returns an empty object
  next to an error.
\<close>

type_synonym object = "string \<times> nat"

record cluster =
  lister :: "object list"
  server :: "object list"

definition emptyObject :: object where
  "emptyObject = ([], 0)"

definition exampleLibrary :: "object library" where
  "exampleLibrary =
     \<lparr>Accessor = (\<lambda>obj. case obj of
                       None \<Rightarrow> Inl (Error StatusReasonUnknown ''object does not implement the Object interfaces'')
                     | Some (n, c) \<Rightarrow> Inr n),
      Kind = (\<lambda>obj. ''ConfigMap''),
      FormatResource = (\<lambda>obj. case obj of None \<Rightarrow> ''<nil>'' | Some (n, c) \<Rightarrow> ''configmap/'' @ n)\<rparr>"

definition listerGetter :: "(object, cluster) Getter" where
  "listerGetter =
     \<lparr>Get = (\<lambda>name w. case map_of (lister w) name of
                         None \<Rightarrow> ((None, Some (Error StatusReasonNotFound name)), w)
                       | Some c \<Rightarrow> ((Some (name, c), None), w))\<rparr>"

definition failingGetter :: "(object, cluster) Getter" where
  "failingGetter = \<lparr>Get = (\<lambda>name w. ((None, Some (Error StatusReasonUnknown ''timeout'')), w))\<rparr>"

definition serverCreate :: "object option \<Rightarrow> cluster \<Rightarrow> (object option \<times> error option) \<times> cluster" where
  "serverCreate obj w =
     (case obj of
        None \<Rightarrow> ((Some emptyObject, Some (Error StatusReasonUnknown ''object is nil'')), w)
      | Some (n, c) \<Rightarrow>
          if n = [] then ((Some emptyObject, Some (Error StatusReasonUnknown ''name is required'')), w)
          else if map_of (server w) n \<noteq> None
          then ((Some emptyObject, Some (Error StatusReasonAlreadyExists n)), w)
          else ((Some (n, c), None), w\<lparr>server := (n, c) # server w\<rparr>))"

definition serverUpdate :: "object option \<Rightarrow> cluster \<Rightarrow> (object option \<times> error option) \<times> cluster" where
  "serverUpdate obj w =
     (case obj of
        None \<Rightarrow> ((Some emptyObject, Some (Error StatusReasonUnknown ''object is nil'')), w)
      | Some (n, c) \<Rightarrow>
          if map_of (server w) n = None
          then ((Some emptyObject, Some (Error StatusReasonNotFound n)), w)
          else ((Some (n, c), None), w\<lparr>server := (n, c) # server w\<rparr>))"

definition serverClient :: "(object, cluster) Client" where
  "serverClient = \<lparr>Create = serverCreate, Update = serverUpdate\<rparr>"

definition equalCompare :: "(object, cluster) CompareFunc" where
  "equalCompare required existing w =
     (if required = existing then ((existing, False), w) else ((required, True), w))"

definition exampleApplier :: "(object, cluster) applier" where
  "exampleApplier = NewApplier listerGetter serverClient equalCompare"

section \<open>The paths of Apply\<close>

text \<open>
  Once the accessor has given the name, a call of \<open>Apply\<close> on a fresh run is determined by
  what the collaborators return. The three lemmas give the result and the complete log of
  the branch taken after Get: the create branch, the comparison that reports no change, and
  the update.
\<close>

lemmas call_defs = callGet_def callCreate_def callUpdate_def callCompare_def
  recorderEventf_def recorderWarningf_def start_def

lemmas example_defs = exampleApplier_def NewApplier_def listerGetter_def failingGetter_def
  serverClient_def serverCreate_def serverUpdate_def equalCompare_def exampleLibrary_def
  emptyObject_def

lemma Apply_create_path:
  assumes "Accessor lib required = Inr name"
    and "Get (getter a) name w = ((existing, getErr), w1)"
    and "IsNotFound getErr"
    and "Create (client a) required w1 = ((actual, createErr), w2)"
  shows "Apply lib a required (start w) =
    (if IsAlreadyExists createErr
     then ((required, False, None), \<lparr>world = w2, calls = [GetCall name, CreateCall required]\<rparr>)
     else ((actual, True, createErr),
           \<lparr>world = w2,
            calls = [GetCall name, CreateCall required,
                     if createErr = None
                     then Eventf (Kind lib required @ ''Created'') ''Created %s because it was missing''
                            [ArgString (FormatResource lib actual)]
                     else Warningf (Kind lib required @ ''CreateFailed'') ''Failed to create %s: %v''
                            [ArgString (FormatResource lib required), ArgError createErr]]\<rparr>))"
  using assms by (simp add: Apply_def call_defs Let_def)

lemma Apply_unmodified_path:
  assumes "Accessor lib required = Inr name"
    and "Get (getter a) name w = ((existing, getErr), w1)"
    and "\<not> IsNotFound getErr"
    and "compare a required existing w1 = ((updated, False), w2)"
  shows "Apply lib a required (start w) =
    ((updated, False, None), \<lparr>world = w2, calls = [GetCall name, CompareCall required existing]\<rparr>)"
  using assms by (simp add: Apply_def call_defs Let_def)

lemma Apply_update_path:
  assumes "Accessor lib required = Inr name"
    and "Get (getter a) name w = ((existing, getErr), w1)"
    and "\<not> IsNotFound getErr"
    and "compare a required existing w1 = ((updated, True), w2)"
    and "Update (client a) updated w2 = ((updated', updateErr), w3)"
  shows "Apply lib a required (start w) =
    ((updated', True, updateErr),
     \<lparr>world = w3,
      calls = [GetCall name, CompareCall required existing, UpdateCall updated,
               if updateErr \<noteq> None
               then Warningf (Kind lib required @ ''UpdateFailed'') ''Failed to update %s: %v''
                      [ArgString (FormatResource lib required), ArgError updateErr]
               else Eventf (Kind lib required @ ''Updated'') (''Updated %s:'' @ [CHR 0x0A] @ ''%s'')
                      [ArgString (FormatResource lib updated')]]\<rparr>)"
  using assms by (simp add: Apply_def call_defs Let_def)

section \<open>The claims\<close>

text \<open>
  C1 says that an error of Get that is neither nil nor not-found is returned as it is,
  without a call to Create or to the comparison function. The source tests the error of Get
  with \<open>errors.IsNotFound\<close> only and never returns it: any other error falls through to the
  comparison, with whatever object Get returned, and is then dropped or overwritten. On a
  getter that fails with a timeout, \<open>Apply\<close> calls the comparison function with a nil existing
  object, updates, and returns a nil error.
\<close>

theorem Apply_fetch_error_dropped:
  "Accessor exampleLibrary (Some (''a'', 1)) = Inr ''a''
 \<and> Get failingGetter ''a'' \<lparr>lister = [(''a'', 1)], server = [(''a'', 1)]\<rparr> =
     ((None, Some (Error StatusReasonUnknown ''timeout'')),
      \<lparr>lister = [(''a'', 1)], server = [(''a'', 1)]\<rparr>)
 \<and> \<not> IsNotFound (Some (Error StatusReasonUnknown ''timeout''))
 \<and> Apply exampleLibrary (NewApplier failingGetter serverClient equalCompare) (Some (''a'', 1))
       (start \<lparr>lister = [(''a'', 1)], server = [(''a'', 1)]\<rparr>) =
     ((Some (''a'', 1), True, None),
      \<lparr>world = \<lparr>lister = [(''a'', 1)], server = [(''a'', 1), (''a'', 1)]\<rparr>,
       calls = [GetCall ''a'', CompareCall (Some (''a'', 1)) None, UpdateCall (Some (''a'', 1)),
                Eventf ''ConfigMapUpdated'' (''Updated %s:'' @ [CHR 0x0A] @ ''%s'')
                  [ArgString ''configmap/a'']]\<rparr>)"
  by (simp add: Apply_def call_defs example_defs)

text \<open>
  C2: when Get reports not-found for the name of the required object, \<open>Apply\<close> calls Create
  exactly once, with the required object, whatever Create returns; and when Create succeeds
  (nil error), \<open>Apply\<close> records one event with reason Kind + "Created" and returns the
  object that Create returned, changed = true and a nil error. The log is then Get, Create,
  the event.
\<close>

theorem Apply_not_found_creates:
  assumes "Accessor lib required = Inr name"
    and "Get (getter a) name w = ((existing, getErr), w1)"
    and "IsNotFound getErr"
    and "Create (client a) required w1 = ((actual, createErr), w2)"
  shows "filter isCreate (calls (snd (Apply lib a required (start w)))) = [CreateCall required]
    \<and> (createErr = None \<longrightarrow>
         Apply lib a required (start w) =
           ((actual, True, None),
            \<lparr>world = w2,
             calls = [GetCall name, CreateCall required,
                      Eventf (Kind lib required @ ''Created'') ''Created %s because it was missing''
                        [ArgString (FormatResource lib actual)]]\<rparr>))"
  by (simp add: Apply_create_path [OF assms])

theorem Apply_not_found_creates_witness:
  "Accessor exampleLibrary (Some (''a'', 1)) = Inr ''a''
 \<and> Get (getter exampleApplier) ''a'' \<lparr>lister = [], server = []\<rparr> =
     ((None, Some (Error StatusReasonNotFound ''a'')), \<lparr>lister = [], server = []\<rparr>)
 \<and> IsNotFound (Some (Error StatusReasonNotFound ''a''))
 \<and> Create (client exampleApplier) (Some (''a'', 1)) \<lparr>lister = [], server = []\<rparr> =
     ((Some (''a'', 1), None), \<lparr>lister = [], server = [(''a'', 1)]\<rparr>)
 \<and> filter isCreate (calls (snd (Apply exampleLibrary exampleApplier (Some (''a'', 1))
       (start \<lparr>lister = [], server = []\<rparr>)))) = [CreateCall (Some (''a'', 1))]
 \<and> Apply exampleLibrary exampleApplier (Some (''a'', 1)) (start \<lparr>lister = [], server = []\<rparr>) =
     ((Some (''a'', 1), True, None),
      \<lparr>world = \<lparr>lister = [], server = [(''a'', 1)]\<rparr>,
       calls = [GetCall ''a'', CreateCall (Some (''a'', 1)),
                Eventf ''ConfigMapCreated'' ''Created %s because it was missing''
                  [ArgString ''configmap/a'']]\<rparr>)"
proof -
  have acc: "Accessor exampleLibrary (Some (''a'', 1)) = Inr ''a''"
    by (simp add: exampleLibrary_def)
  have get: "Get (getter exampleApplier) ''a'' \<lparr>lister = [], server = []\<rparr> =
      ((None, Some (Error StatusReasonNotFound ''a'')), \<lparr>lister = [], server = []\<rparr>)"
    by (simp add: example_defs)
  have nf: "IsNotFound (Some (Error StatusReasonNotFound ''a''))"
    by simp
  have cr: "Create (client exampleApplier) (Some (''a'', 1)) \<lparr>lister = [], server = []\<rparr> =
      ((Some (''a'', 1), None), \<lparr>lister = [], server = [(''a'', 1)]\<rparr>)"
    by (simp add: example_defs)
  show ?thesis
    using acc get nf cr Apply_not_found_creates [OF acc get nf cr]
    by (simp add: exampleLibrary_def)
qed

text \<open>
  C3: when Get reports not-found and Create fails with an already-exists error, \<open>Apply\<close>
  returns the required object itself, changed = false and a nil error, and the recorder is
  not called: the log is Get, Create and nothing else.
\<close>

theorem Apply_create_already_exists:
  assumes "Accessor lib required = Inr name"
    and "Get (getter a) name w = ((existing, getErr), w1)"
    and "IsNotFound getErr"
    and "Create (client a) required w1 = ((actual, createErr), w2)"
    and "IsAlreadyExists createErr"
  shows "Apply lib a required (start w) =
           ((required, False, None), \<lparr>world = w2, calls = [GetCall name, CreateCall required]\<rparr>)
    \<and> filter isNotification (calls (snd (Apply lib a required (start w)))) = []"
  using assms(5) by (simp add: Apply_create_path [OF assms(1-4)])

theorem Apply_create_already_exists_witness:
  "Accessor exampleLibrary (Some (''a'', 2)) = Inr ''a''
 \<and> Get (getter exampleApplier) ''a'' \<lparr>lister = [], server = [(''a'', 1)]\<rparr> =
     ((None, Some (Error StatusReasonNotFound ''a'')), \<lparr>lister = [], server = [(''a'', 1)]\<rparr>)
 \<and> IsNotFound (Some (Error StatusReasonNotFound ''a''))
 \<and> Create (client exampleApplier) (Some (''a'', 2)) \<lparr>lister = [], server = [(''a'', 1)]\<rparr> =
     ((Some emptyObject, Some (Error StatusReasonAlreadyExists ''a'')),
      \<lparr>lister = [], server = [(''a'', 1)]\<rparr>)
 \<and> IsAlreadyExists (Some (Error StatusReasonAlreadyExists ''a''))
 \<and> Apply exampleLibrary exampleApplier (Some (''a'', 2))
       (start \<lparr>lister = [], server = [(''a'', 1)]\<rparr>) =
     ((Some (''a'', 2), False, None),
      \<lparr>world = \<lparr>lister = [], server = [(''a'', 1)]\<rparr>,
       calls = [GetCall ''a'', CreateCall (Some (''a'', 2))]\<rparr>)
 \<and> filter isNotification (calls (snd (Apply exampleLibrary exampleApplier (Some (''a'', 2))
       (start \<lparr>lister = [], server = [(''a'', 1)]\<rparr>)))) = []"
proof -
  have acc: "Accessor exampleLibrary (Some (''a'', 2)) = Inr ''a''"
    by (simp add: exampleLibrary_def)
  have get: "Get (getter exampleApplier) ''a'' \<lparr>lister = [], server = [(''a'', 1)]\<rparr> =
      ((None, Some (Error StatusReasonNotFound ''a'')), \<lparr>lister = [], server = [(''a'', 1)]\<rparr>)"
    by (simp add: example_defs)
  have nf: "IsNotFound (Some (Error StatusReasonNotFound ''a''))"
    by simp
  have cr: "Create (client exampleApplier) (Some (''a'', 2)) \<lparr>lister = [], server = [(''a'', 1)]\<rparr> =
      ((Some emptyObject, Some (Error StatusReasonAlreadyExists ''a'')),
       \<lparr>lister = [], server = [(''a'', 1)]\<rparr>)"
    by (simp add: example_defs)
  have ae: "IsAlreadyExists (Some (Error StatusReasonAlreadyExists ''a''))"
    by simp
  show ?thesis
    using acc get nf cr ae Apply_create_already_exists [OF acc get nf cr ae] by simp
qed

text \<open>
  C4 says that after a Create that fails with an error other than already-exists, \<open>Apply\<close>
  returns nil as the object. The source returns \<open>actual\<close>, the object that Create returned
  next to its error, and a client may return one that is not nil. The server client of the
  instance above does, for a required object with an empty name: Get reports not-found,
  Create fails with an error that is not already-exists, and the object that \<open>Apply\<close>
  returns is the empty object, not nil.
\<close>

theorem Apply_create_failed_not_nil:
  "Accessor exampleLibrary (Some ('''', 1)) = Inr ''''
 \<and> IsNotFound (snd (fst (Get (getter exampleApplier) '''' \<lparr>lister = [], server = []\<rparr>)))
 \<and> snd (fst (Create (client exampleApplier) (Some ('''', 1)) \<lparr>lister = [], server = []\<rparr>)) =
     Some (Error StatusReasonUnknown ''name is required'')
 \<and> \<not> IsAlreadyExists (Some (Error StatusReasonUnknown ''name is required''))
 \<and> fst (Apply exampleLibrary exampleApplier (Some ('''', 1)) (start \<lparr>lister = [], server = []\<rparr>)) =
     (Some emptyObject, True, Some (Error StatusReasonUnknown ''name is required''))
 \<and> fst (fst (Apply exampleLibrary exampleApplier (Some ('''', 1))
       (start \<lparr>lister = [], server = []\<rparr>))) \<noteq> None"
  by (simp add: Apply_def call_defs example_defs)

text \<open>
  C4, amended: when Get reports not-found and Create fails with an error other than
  already-exists, \<open>Apply\<close> records one warning with reason Kind + "CreateFailed" and
  returns the object that Create returned next to its error (nil exactly when Create
  returned nil), changed = true and the error of Create.
\<close>

theorem Apply_create_failed:
  assumes "Accessor lib required = Inr name"
    and "Get (getter a) name w = ((existing, getErr), w1)"
    and "IsNotFound getErr"
    and "Create (client a) required w1 = ((actual, createErr), w2)"
    and "createErr \<noteq> None"
    and "\<not> IsAlreadyExists createErr"
  shows "Apply lib a required (start w) =
           ((actual, True, createErr),
            \<lparr>world = w2,
             calls = [GetCall name, CreateCall required,
                      Warningf (Kind lib required @ ''CreateFailed'') ''Failed to create %s: %v''
                        [ArgString (FormatResource lib required), ArgError createErr]]\<rparr>)"
  using assms(5,6) by (simp add: Apply_create_path [OF assms(1-4)])

theorem Apply_create_failed_witness:
  "Accessor exampleLibrary (Some ('''', 1)) = Inr ''''
 \<and> Get (getter exampleApplier) '''' \<lparr>lister = [], server = []\<rparr> =
     ((None, Some (Error StatusReasonNotFound '''')), \<lparr>lister = [], server = []\<rparr>)
 \<and> IsNotFound (Some (Error StatusReasonNotFound ''''))
 \<and> Create (client exampleApplier) (Some ('''', 1)) \<lparr>lister = [], server = []\<rparr> =
     ((Some emptyObject, Some (Error StatusReasonUnknown ''name is required'')),
      \<lparr>lister = [], server = []\<rparr>)
 \<and> Some (Error StatusReasonUnknown ''name is required'') \<noteq> None
 \<and> \<not> IsAlreadyExists (Some (Error StatusReasonUnknown ''name is required''))
 \<and> Apply exampleLibrary exampleApplier (Some ('''', 1)) (start \<lparr>lister = [], server = []\<rparr>) =
     ((Some emptyObject, True, Some (Error StatusReasonUnknown ''name is required'')),
      \<lparr>world = \<lparr>lister = [], server = []\<rparr>,
       calls = [GetCall '''', CreateCall (Some ('''', 1)),
                Warningf ''ConfigMapCreateFailed'' ''Failed to create %s: %v''
                  [ArgString ''configmap/'',
                   ArgError (Some (Error StatusReasonUnknown ''name is required''))]]\<rparr>)"
proof -
  have acc: "Accessor exampleLibrary (Some ('''', 1)) = Inr ''''"
    by (simp add: exampleLibrary_def)
  have get: "Get (getter exampleApplier) '''' \<lparr>lister = [], server = []\<rparr> =
      ((None, Some (Error StatusReasonNotFound '''')), \<lparr>lister = [], server = []\<rparr>)"
    by (simp add: example_defs)
  have nf: "IsNotFound (Some (Error StatusReasonNotFound ''''))"
    by simp
  have cr: "Create (client exampleApplier) (Some ('''', 1)) \<lparr>lister = [], server = []\<rparr> =
      ((Some emptyObject, Some (Error StatusReasonUnknown ''name is required'')),
       \<lparr>lister = [], server = []\<rparr>)"
    by (simp add: example_defs)
  have ne: "Some (Error StatusReasonUnknown ''name is required'') \<noteq> None"
    by simp
  have nae: "\<not> IsAlreadyExists (Some (Error StatusReasonUnknown ''name is required''))"
    by simp
  show ?thesis
    using acc get nf cr Apply_create_failed [OF acc get nf cr ne nae]
    by (simp add: exampleLibrary_def)
qed

text \<open>
  C5: when Get returns an existing object with a nil error and the comparison function
  reports changed = false, \<open>Apply\<close> returns the object the comparison function returned,
  changed = false and a nil error, and makes no Create and no Update call: the log is Get
  and the comparison.
\<close>

theorem Apply_unchanged_no_write:
  assumes "Accessor lib required = Inr name"
    and "Get (getter a) name w = ((existing, None), w1)"
    and "compare a required existing w1 = ((updated, False), w2)"
  shows "Apply lib a required (start w) =
           ((updated, False, None),
            \<lparr>world = w2, calls = [GetCall name, CompareCall required existing]\<rparr>)
    \<and> filter isCreate (calls (snd (Apply lib a required (start w)))) = []
    \<and> filter isUpdate (calls (snd (Apply lib a required (start w)))) = []"
proof -
  have found: "\<not> IsNotFound None" by simp
  show ?thesis
    by (simp add: Apply_unmodified_path [OF assms(1) assms(2) found assms(3)])
qed

theorem Apply_unchanged_no_write_witness:
  "Accessor exampleLibrary (Some (''a'', 1)) = Inr ''a''
 \<and> Get (getter exampleApplier) ''a'' \<lparr>lister = [(''a'', 1)], server = [(''a'', 1)]\<rparr> =
     ((Some (''a'', 1), None), \<lparr>lister = [(''a'', 1)], server = [(''a'', 1)]\<rparr>)
 \<and> compare exampleApplier (Some (''a'', 1)) (Some (''a'', 1))
       \<lparr>lister = [(''a'', 1)], server = [(''a'', 1)]\<rparr> =
     ((Some (''a'', 1), False), \<lparr>lister = [(''a'', 1)], server = [(''a'', 1)]\<rparr>)
 \<and> Apply exampleLibrary exampleApplier (Some (''a'', 1))
       (start \<lparr>lister = [(''a'', 1)], server = [(''a'', 1)]\<rparr>) =
     ((Some (''a'', 1), False, None),
      \<lparr>world = \<lparr>lister = [(''a'', 1)], server = [(''a'', 1)]\<rparr>,
       calls = [GetCall ''a'', CompareCall (Some (''a'', 1)) (Some (''a'', 1))]\<rparr>)
 \<and> filter isCreate (calls (snd (Apply exampleLibrary exampleApplier (Some (''a'', 1))
       (start \<lparr>lister = [(''a'', 1)], server = [(''a'', 1)]\<rparr>)))) = []
 \<and> filter isUpdate (calls (snd (Apply exampleLibrary exampleApplier (Some (''a'', 1))
       (start \<lparr>lister = [(''a'', 1)], server = [(''a'', 1)]\<rparr>)))) = []"
proof -
  have acc: "Accessor exampleLibrary (Some (''a'', 1)) = Inr ''a''"
    by (simp add: exampleLibrary_def)
  have get: "Get (getter exampleApplier) ''a'' \<lparr>lister = [(''a'', 1)], server = [(''a'', 1)]\<rparr> =
      ((Some (''a'', 1), None), \<lparr>lister = [(''a'', 1)], server = [(''a'', 1)]\<rparr>)"
    by (simp add: example_defs)
  have cmp: "compare exampleApplier (Some (''a'', 1)) (Some (''a'', 1))
        \<lparr>lister = [(''a'', 1)], server = [(''a'', 1)]\<rparr> =
      ((Some (''a'', 1), False), \<lparr>lister = [(''a'', 1)], server = [(''a'', 1)]\<rparr>)"
    by (simp add: example_defs)
  show ?thesis
    using acc get cmp Apply_unchanged_no_write [OF acc get cmp] by simp
qed

text \<open>
  C6: when Get returns an existing object with a nil error and the comparison function
  reports changed = true, \<open>Apply\<close> calls Update exactly once, with the object the
  comparison function returned, whatever Update returns; and when Update succeeds (nil
  error), \<open>Apply\<close> records one event with reason Kind + "Updated" and returns the object
  that Update returned, changed = true and a nil error.
\<close>

theorem Apply_changed_updates:
  assumes "Accessor lib required = Inr name"
    and "Get (getter a) name w = ((existing, None), w1)"
    and "compare a required existing w1 = ((updated, True), w2)"
    and "Update (client a) updated w2 = ((updated', updateErr), w3)"
  shows "filter isUpdate (calls (snd (Apply lib a required (start w)))) = [UpdateCall updated]
    \<and> (updateErr = None \<longrightarrow>
         Apply lib a required (start w) =
           ((updated', True, None),
            \<lparr>world = w3,
             calls = [GetCall name, CompareCall required existing, UpdateCall updated,
                      Eventf (Kind lib required @ ''Updated'') (''Updated %s:'' @ [CHR 0x0A] @ ''%s'')
                        [ArgString (FormatResource lib updated')]]\<rparr>))"
proof -
  have found: "\<not> IsNotFound None" by simp
  show ?thesis
    by (simp add: Apply_update_path [OF assms(1) assms(2) found assms(3) assms(4)])
qed

theorem Apply_changed_updates_witness:
  "Accessor exampleLibrary (Some (''a'', 2)) = Inr ''a''
 \<and> Get (getter exampleApplier) ''a'' \<lparr>lister = [(''a'', 1)], server = [(''a'', 1)]\<rparr> =
     ((Some (''a'', 1), None), \<lparr>lister = [(''a'', 1)], server = [(''a'', 1)]\<rparr>)
 \<and> compare exampleApplier (Some (''a'', 2)) (Some (''a'', 1))
       \<lparr>lister = [(''a'', 1)], server = [(''a'', 1)]\<rparr> =
     ((Some (''a'', 2), True), \<lparr>lister = [(''a'', 1)], server = [(''a'', 1)]\<rparr>)
 \<and> Update (client exampleApplier) (Some (''a'', 2))
       \<lparr>lister = [(''a'', 1)], server = [(''a'', 1)]\<rparr> =
     ((Some (''a'', 2), None), \<lparr>lister = [(''a'', 1)], server = [(''a'', 2), (''a'', 1)]\<rparr>)
 \<and> filter isUpdate (calls (snd (Apply exampleLibrary exampleApplier (Some (''a'', 2))
       (start \<lparr>lister = [(''a'', 1)], server = [(''a'', 1)]\<rparr>)))) = [UpdateCall (Some (''a'', 2))]
 \<and> Apply exampleLibrary exampleApplier (Some (''a'', 2))
       (start \<lparr>lister = [(''a'', 1)], server = [(''a'', 1)]\<rparr>) =
     ((Some (''a'', 2), True, None),
      \<lparr>world = \<lparr>lister = [(''a'', 1)], server = [(''a'', 2), (''a'', 1)]\<rparr>,
       calls = [GetCall ''a'', CompareCall (Some (''a'', 2)) (Some (''a'', 1)),
                UpdateCall (Some (''a'', 2)),
                Eventf ''ConfigMapUpdated'' (''Updated %s:'' @ [CHR 0x0A] @ ''%s'')
                  [ArgString ''configmap/a'']]\<rparr>)"
proof -
  have acc: "Accessor exampleLibrary (Some (''a'', 2)) = Inr ''a''"
    by (simp add: exampleLibrary_def)
  have get: "Get (getter exampleApplier) ''a'' \<lparr>lister = [(''a'', 1)], server = [(''a'', 1)]\<rparr> =
      ((Some (''a'', 1), None), \<lparr>lister = [(''a'', 1)], server = [(''a'', 1)]\<rparr>)"
    by (simp add: example_defs)
  have cmp: "compare exampleApplier (Some (''a'', 2)) (Some (''a'', 1))
        \<lparr>lister = [(''a'', 1)], server = [(''a'', 1)]\<rparr> =
      ((Some (''a'', 2), True), \<lparr>lister = [(''a'', 1)], server = [(''a'', 1)]\<rparr>)"
    by (simp add: example_defs)
  have upd: "Update (client exampleApplier) (Some (''a'', 2))
        \<lparr>lister = [(''a'', 1)], server = [(''a'', 1)]\<rparr> =
      ((Some (''a'', 2), None), \<lparr>lister = [(''a'', 1)], server = [(''a'', 2), (''a'', 1)]\<rparr>)"
    by (simp add: example_defs)
  show ?thesis
    using acc get cmp upd Apply_changed_updates [OF acc get cmp upd]
    by (simp add: exampleLibrary_def)
qed

text \<open>
  C7: when the comparison function reports a change and Update fails (its error is not nil),
  \<open>Apply\<close> records one warning with reason Kind + "UpdateFailed" and returns changed = true
  together with the error of Update (and the object that Update returned). The comparison
  function is reached whenever the error of Get is not a not-found error.
\<close>

theorem Apply_update_failed:
  assumes "Accessor lib required = Inr name"
    and "Get (getter a) name w = ((existing, getErr), w1)"
    and "\<not> IsNotFound getErr"
    and "compare a required existing w1 = ((updated, True), w2)"
    and "Update (client a) updated w2 = ((updated', updateErr), w3)"
    and "updateErr \<noteq> None"
  shows "Apply lib a required (start w) =
           ((updated', True, updateErr),
            \<lparr>world = w3,
             calls = [GetCall name, CompareCall required existing, UpdateCall updated,
                      Warningf (Kind lib required @ ''UpdateFailed'') ''Failed to update %s: %v''
                        [ArgString (FormatResource lib required), ArgError updateErr]]\<rparr>)"
  using assms(6) by (simp add: Apply_update_path [OF assms(1-5)])

theorem Apply_update_failed_witness:
  "Accessor exampleLibrary (Some (''a'', 2)) = Inr ''a''
 \<and> Get (getter exampleApplier) ''a'' \<lparr>lister = [(''a'', 1)], server = []\<rparr> =
     ((Some (''a'', 1), None), \<lparr>lister = [(''a'', 1)], server = []\<rparr>)
 \<and> \<not> IsNotFound None
 \<and> compare exampleApplier (Some (''a'', 2)) (Some (''a'', 1)) \<lparr>lister = [(''a'', 1)], server = []\<rparr> =
     ((Some (''a'', 2), True), \<lparr>lister = [(''a'', 1)], server = []\<rparr>)
 \<and> Update (client exampleApplier) (Some (''a'', 2)) \<lparr>lister = [(''a'', 1)], server = []\<rparr> =
     ((Some emptyObject, Some (Error StatusReasonNotFound ''a'')), \<lparr>lister = [(''a'', 1)], server = []\<rparr>)
 \<and> Some (Error StatusReasonNotFound ''a'') \<noteq> None
 \<and> Apply exampleLibrary exampleApplier (Some (''a'', 2))
       (start \<lparr>lister = [(''a'', 1)], server = []\<rparr>) =
     ((Some emptyObject, True, Some (Error StatusReasonNotFound ''a'')),
      \<lparr>world = \<lparr>lister = [(''a'', 1)], server = []\<rparr>,
       calls = [GetCall ''a'', CompareCall (Some (''a'', 2)) (Some (''a'', 1)),
                UpdateCall (Some (''a'', 2)),
                Warningf ''ConfigMapUpdateFailed'' ''Failed to update %s: %v''
                  [ArgString ''configmap/a'', ArgError (Some (Error StatusReasonNotFound ''a''))]]\<rparr>)"
proof -
  have acc: "Accessor exampleLibrary (Some (''a'', 2)) = Inr ''a''"
    by (simp add: exampleLibrary_def)
  have get: "Get (getter exampleApplier) ''a'' \<lparr>lister = [(''a'', 1)], server = []\<rparr> =
      ((Some (''a'', 1), None), \<lparr>lister = [(''a'', 1)], server = []\<rparr>)"
    by (simp add: example_defs)
  have found: "\<not> IsNotFound None"
    by simp
  have cmp: "compare exampleApplier (Some (''a'', 2)) (Some (''a'', 1))
        \<lparr>lister = [(''a'', 1)], server = []\<rparr> =
      ((Some (''a'', 2), True), \<lparr>lister = [(''a'', 1)], server = []\<rparr>)"
    by (simp add: example_defs)
  have upd: "Update (client exampleApplier) (Some (''a'', 2)) \<lparr>lister = [(''a'', 1)], server = []\<rparr> =
      ((Some emptyObject, Some (Error StatusReasonNotFound ''a'')),
       \<lparr>lister = [(''a'', 1)], server = []\<rparr>)"
    by (simp add: example_defs)
  have ne: "Some (Error StatusReasonNotFound ''a'') \<noteq> None"
    by simp
  show ?thesis
    using acc get cmp upd Apply_update_failed [OF acc get found cmp upd ne]
    by (simp add: exampleLibrary_def)
qed

text \<open>
  C8: if the comparison function keeps its contract (when it reports changed = false, the
  object it returns is the existing one), then whenever \<open>Apply\<close> goes past the not-found
  test (the found path) and returns changed = false, the object it returns is the existing
  object that Get returned.
\<close>

theorem Apply_unchanged_returns_existing:
  assumes "compareContract (compare a)"
    and "Accessor lib required = Inr name"
    and "Get (getter a) name w = ((existing, getErr), w1)"
    and "\<not> IsNotFound getErr"
    and "Apply lib a required (start w) = ((obj, False, err), s')"
  shows "obj = existing"
proof -
  obtain updated modified w2 where
    cmp: "compare a required existing w1 = ((updated, modified), w2)"
    by (metis prod.exhaust)
  show ?thesis
  proof (cases modified)
    case True
    obtain updated' updateErr w3 where
      upd: "Update (client a) updated w2 = ((updated', updateErr), w3)"
      by (metis prod.exhaust)
    from cmp True have "compare a required existing w1 = ((updated, True), w2)"
      by simp
    from Apply_update_path [OF assms(2) assms(3) assms(4) this upd] assms(5)
    show ?thesis by simp
  next
    case False
    with cmp have cmp': "compare a required existing w1 = ((updated, False), w2)"
      by simp
    from assms(1) cmp' have "updated = existing"
      unfolding compareContract_def by (metis fst_conv snd_conv)
    with Apply_unmodified_path [OF assms(2) assms(3) assms(4) cmp'] assms(5)
    show ?thesis by simp
  qed
qed

theorem Apply_unchanged_returns_existing_witness:
  "compareContract (compare exampleApplier)
 \<and> Accessor exampleLibrary (Some (''a'', 1)) = Inr ''a''
 \<and> Get (getter exampleApplier) ''a'' \<lparr>lister = [(''a'', 1)], server = []\<rparr> =
     ((Some (''a'', 1), None), \<lparr>lister = [(''a'', 1)], server = []\<rparr>)
 \<and> \<not> IsNotFound None
 \<and> Apply exampleLibrary exampleApplier (Some (''a'', 1)) (start \<lparr>lister = [(''a'', 1)], server = []\<rparr>) =
     ((Some (''a'', 1), False, None),
      \<lparr>world = \<lparr>lister = [(''a'', 1)], server = []\<rparr>,
       calls = [GetCall ''a'', CompareCall (Some (''a'', 1)) (Some (''a'', 1))]\<rparr>)
 \<and> fst (fst (Apply exampleLibrary exampleApplier (Some (''a'', 1))
       (start \<lparr>lister = [(''a'', 1)], server = []\<rparr>))) =
     fst (fst (Get (getter exampleApplier) ''a'' \<lparr>lister = [(''a'', 1)], server = []\<rparr>))"
proof -
  have con: "compareContract (compare exampleApplier)"
    by (simp add: compareContract_def example_defs)
  have acc: "Accessor exampleLibrary (Some (''a'', 1)) = Inr ''a''"
    by (simp add: exampleLibrary_def)
  have get: "Get (getter exampleApplier) ''a'' \<lparr>lister = [(''a'', 1)], server = []\<rparr> =
      ((Some (''a'', 1), None), \<lparr>lister = [(''a'', 1)], server = []\<rparr>)"
    by (simp add: example_defs)
  have found: "\<not> IsNotFound None"
    by simp
  have app: "Apply exampleLibrary exampleApplier (Some (''a'', 1))
        (start \<lparr>lister = [(''a'', 1)], server = []\<rparr>) =
      ((Some (''a'', 1), False, None),
       \<lparr>world = \<lparr>lister = [(''a'', 1)], server = []\<rparr>,
        calls = [GetCall ''a'', CompareCall (Some (''a'', 1)) (Some (''a'', 1))]\<rparr>)"
    by (simp add: Apply_def call_defs example_defs)
  show ?thesis
    using con acc get app Apply_unchanged_returns_existing [OF con acc get found app]
    by simp
qed

text \<open>
  C9: in one call of \<open>Apply\<close>, Get, Create, Update and the comparison function are each
  invoked at most once, and Create and Update are never both invoked. The log of a call
  that starts on a fresh run holds at most one entry of each of the four kinds, and at most
  one entry that is a Create or an Update.
\<close>

theorem Apply_call_counts:
  "length (filter isGet (calls (snd (Apply lib a required (start w))))) \<le> 1
 \<and> length (filter isCompare (calls (snd (Apply lib a required (start w))))) \<le> 1
 \<and> length (filter isCreate (calls (snd (Apply lib a required (start w))))) \<le> 1
 \<and> length (filter isUpdate (calls (snd (Apply lib a required (start w))))) \<le> 1
 \<and> length (filter isCreate (calls (snd (Apply lib a required (start w)))))
   + length (filter isUpdate (calls (snd (Apply lib a required (start w))))) \<le> 1"
proof (cases "Accessor lib required")
  case (Inl e)
  then show ?thesis by (simp add: Apply_def start_def)
next
  case (Inr name)
  obtain existing getErr w1 where get: "Get (getter a) name w = ((existing, getErr), w1)"
    by (metis prod.exhaust)
  show ?thesis
  proof (cases "IsNotFound getErr")
    case True
    obtain actual createErr w2 where cr: "Create (client a) required w1 = ((actual, createErr), w2)"
      by (metis prod.exhaust)
    show ?thesis by (simp add: Apply_create_path [OF Inr get True cr])
  next
    case False
    obtain updated modified w2 where cmp: "compare a required existing w1 = ((updated, modified), w2)"
      by (metis prod.exhaust)
    show ?thesis
    proof (cases modified)
      case True
      obtain updated' updateErr w3 where up: "Update (client a) updated w2 = ((updated', updateErr), w3)"
        by (metis prod.exhaust)
      show ?thesis using cmp True by (simp add: Apply_update_path [OF Inr get False _ up])
    next
      case nomod: False
      show ?thesis using cmp nomod by (simp add: Apply_unmodified_path [OF Inr get False])
    qed
  qed
qed

text \<open>
  C10: when the metadata accessor of the required object fails, \<open>Apply\<close> returns nil,
  changed = false and the accessor's error at once: the log stays empty (no call to the
  getter, the client, the comparison function or the recorder) and the world is untouched.
\<close>

theorem Apply_accessor_error:
  assumes "Accessor lib required = Inl err"
  shows "Apply lib a required (start w) = ((None, False, Some err), \<lparr>world = w, calls = []\<rparr>)"
  using assms by (simp add: Apply_def start_def)

theorem Apply_accessor_error_witness:
  "Accessor exampleLibrary None = Inl (Error StatusReasonUnknown ''object does not implement the Object interfaces'')
 \<and> Apply exampleLibrary exampleApplier None (start \<lparr>lister = [(''a'', 1)], server = [(''a'', 1)]\<rparr>) =
     ((None, False, Some (Error StatusReasonUnknown ''object does not implement the Object interfaces'')),
      \<lparr>world = \<lparr>lister = [(''a'', 1)], server = [(''a'', 1)]\<rparr>, calls = []\<rparr>)"
proof -
  have acc: "Accessor exampleLibrary None =
      Inl (Error StatusReasonUnknown ''object does not implement the Object interfaces'')"
    by (simp add: exampleLibrary_def)
  show ?thesis
    using acc Apply_accessor_error [OF acc, of exampleApplier "\<lparr>lister = [(''a'', 1)], server = [(''a'', 1)]\<rparr>"]
    by simp
qed

end
